theory Spec2Isabelle
  imports Complex_Main "HOL-Library.AList"
begin

section \<open>Data model\<close>

text \<open>
  Vertex identifiers are Python integers, robot identifiers are strings, positions are
  pairs of floats (idealised here as real numbers). Every Python dict is an association
  list in insertion order: \<open>d[k] = v\<close> is \<open>AList.update k v d\<close>, \<open>del d[k]\<close> is
  \<open>AList.delete k d\<close>, \<open>k in d\<close> and \<open>d[k]\<close> read \<open>map_of d k\<close>.
\<close>

type_synonym vertex = int
type_synonym rid = string
type_synonym pos = "real \<times> real"
type_synonym lane = "vertex \<times> vertex"

datatype robot_state = IDLE | MOVING | WAITING | CHARGING | COMPLETED

datatype py_error = KeyError | IndexError | NodeNotFound

section \<open>TrafficManager (controllers/traffic\_manager.py)\<close>

record traffic_manager =
  lane_occupancy :: "(lane \<times> rid) list"
  vertex_occupancy :: "(vertex \<times> rid) list"

text \<open>\<open>TrafficManager.__init__\<close>: both tables start empty.\<close>

definition TrafficManager :: traffic_manager where
  "TrafficManager = \<lparr>lane_occupancy = [], vertex_occupancy = []\<rparr>"

text \<open>
  \<open>register_lane_usage\<close>: refused when the lane is in the table under another robot's
  id; otherwise the lane and its start vertex are written under \<open>robot_id\<close>.
\<close>

definition register_lane_usage ::
  "rid \<Rightarrow> vertex \<Rightarrow> vertex \<Rightarrow> traffic_manager \<Rightarrow> bool \<times> traffic_manager" where
  "register_lane_usage robot_id start_vertex end_vertex tm =
     (let lane = (start_vertex, end_vertex) in
      if (case map_of (lane_occupancy tm) lane of
            Some holder \<Rightarrow> holder \<noteq> robot_id
          | None \<Rightarrow> False)
      then (False, tm)
      else (True,
            tm\<lparr>lane_occupancy := AList.update lane robot_id (lane_occupancy tm),
               vertex_occupancy := AList.update start_vertex robot_id (vertex_occupancy tm)\<rparr>))"

text \<open>
  \<open>release_lane\<close>: only the holder can release; the start vertex is dropped too when it
  is recorded under the same robot.
\<close>

definition release_lane ::
  "rid \<Rightarrow> vertex \<Rightarrow> vertex \<Rightarrow> traffic_manager \<Rightarrow> bool \<times> traffic_manager" where
  "release_lane robot_id start_vertex end_vertex tm =
     (let lane = (start_vertex, end_vertex) in
      if map_of (lane_occupancy tm) lane = Some robot_id
      then (let tm1 = tm\<lparr>lane_occupancy := AList.delete lane (lane_occupancy tm)\<rparr>;
                tm2 = (if map_of (vertex_occupancy tm1) start_vertex = Some robot_id
                       then tm1\<lparr>vertex_occupancy :=
                                  AList.delete start_vertex (vertex_occupancy tm1)\<rparr>
                       else tm1)
            in (True, tm2))
      else (False, tm))"

definition reset :: "traffic_manager \<Rightarrow> traffic_manager" where
  "reset tm = tm\<lparr>lane_occupancy := [], vertex_occupancy := []\<rparr>"

section \<open>NavGraph (models/nav\_graph.py)\<close>

text \<open>
  The graph is held by networkx, a library outside the repository. The model keeps what
  the dispatcher reads: the nodes with their positions (\<open>G.nodes(data=True)\<close>), the
  charger list, and the library's \<open>shortest_path\<close> as a parameter of the graph, with
  the three outcomes the library has: a path, \<open>NetworkXNoPath\<close>, \<open>NodeNotFound\<close>.
\<close>

datatype nx_result = NxPath "vertex list" | NxNoPath | NxNodeNotFound

record nav_graph =
  nodes :: "(vertex \<times> pos) list"
  chargers :: "vertex list"
  shortest_path :: "vertex option \<Rightarrow> vertex \<Rightarrow> nx_result"

text \<open>
  \<open>get_path\<close> catches \<open>NetworkXNoPath\<close> only and returns \<open>None\<close> for it; any other
  exception of the library leaves the function.
\<close>

definition get_path :: "nav_graph \<Rightarrow> vertex option \<Rightarrow> vertex \<Rightarrow> py_error + vertex list option" where
  "get_path g start end =
     (case shortest_path g start end of
        NxPath p \<Rightarrow> Inr (Some p)
      | NxNoPath \<Rightarrow> Inr None
      | NxNodeNotFound \<Rightarrow> Inl NodeNotFound)"

definition get_chargers :: "nav_graph \<Rightarrow> vertex list" where
  "get_chargers g = chargers g"

text \<open>
  The dict comprehension at the head of \<open>update_robots\<close>: vertex id to position. A later
  entry for the same key wins, as in a comprehension.
\<close>

definition vertex_positions :: "nav_graph \<Rightarrow> vertex \<Rightarrow> pos option" where
  "vertex_positions g = map_of (rev (nodes g))"

section \<open>Robot (models/robot.py)\<close>

record robot =
  robot_id :: rid
  position :: pos
  current_vertex :: "vertex option"
  destination :: "vertex option"
  path :: "vertex list"
  next_vertex :: "vertex option"
  state :: robot_state
  speed :: real
  battery :: real

text \<open>\<open>Robot.__init__\<close> with an explicit id.\<close>

definition Robot :: "rid \<Rightarrow> pos \<Rightarrow> vertex option \<Rightarrow> robot" where
  "Robot i p v =
     \<lparr>robot_id = i, position = p, current_vertex = v, destination = None, path = [],
      next_vertex = None, state = IDLE, speed = 0.05, battery = 100\<rparr>"

definition set_destination :: "vertex \<Rightarrow> vertex list \<Rightarrow> robot \<Rightarrow> robot" where
  "set_destination dest p r =
     (let r1 = r\<lparr>destination := Some dest, path := p\<rparr> in
      if length p > 1 then r1\<lparr>next_vertex := Some (p ! 1), state := MOVING\<rparr>
      else if length p = 1 then r1\<lparr>state := COMPLETED\<rparr>
      else r1\<lparr>state := IDLE\<rparr>)"

text \<open>The dict returned by \<open>Robot.update\<close>; an absent key is \<open>None\<close>.\<close>

record update_info =
  info_state :: robot_state
  info_battery :: "real option"
  info_position :: "pos option"
  info_current_vertex :: "vertex option"

definition state_info :: "robot_state \<Rightarrow> update_info" where
  "state_info s =
     \<lparr>info_state = s, info_battery = None, info_position = None, info_current_vertex = None\<rparr>"

text \<open>Python truthiness of \<open>self.next_vertex\<close>: \<open>None\<close> and the integer 0 are false.\<close>

definition truthy :: "vertex option \<Rightarrow> bool" where
  "truthy v = (case v of None \<Rightarrow> False | Some n \<Rightarrow> n \<noteq> 0)"

text \<open>
  \<open>lane in current_lane_occupancy and current_lane_occupancy[lane] != self.id\<close> for
  \<open>lane = (self.current_vertex, self.next_vertex)\<close>. The table's keys are pairs of
  integers, so a lane with a \<open>None\<close> component is not in it.
\<close>

definition lane_blocked :: "(lane \<times> rid) list \<Rightarrow> robot \<Rightarrow> bool" where
  "lane_blocked occ r =
     (case current_vertex r of
        None \<Rightarrow> False
      | Some a \<Rightarrow>
          (case next_vertex r of
             None \<Rightarrow> False
           | Some b \<Rightarrow>
               (case map_of occ (a, b) of
                  None \<Rightarrow> False
                | Some holder \<Rightarrow> holder \<noteq> robot_id r)))"

text \<open>
  The tail of the MOVING branch of \<open>Robot.update\<close> (from the lane check to the end):
  wait if the lane is taken by another robot, else snap onto the next vertex when it is
  closer than one step, else advance one step. \<open>vertex_positions[self.next_vertex]\<close>
  raises KeyError for a missing key and \<open>self.path.pop(0)\<close> raises IndexError on an
  empty list; the robot keeps what was assigned before the raise.
\<close>

definition move_toward_next ::
  "real \<Rightarrow> (vertex \<Rightarrow> pos option) \<Rightarrow> (lane \<times> rid) list \<Rightarrow> robot \<Rightarrow>
   (py_error + update_info) \<times> robot" where
  "move_toward_next dt vp occ r =
     (if lane_blocked occ r
      then (Inr (state_info WAITING), r\<lparr>state := WAITING\<rparr>)
      else
        (case next_vertex r of
           None \<Rightarrow> (Inl KeyError, r)
         | Some n \<Rightarrow>
             (case vp n of
                None \<Rightarrow> (Inl KeyError, r)
              | Some next_pos \<Rightarrow>
                  (let direction = (fst next_pos - fst (position r),
                                    snd next_pos - snd (position r));
                       distance = sqrt ((fst direction)\<^sup>2 + (snd direction)\<^sup>2)
                   in
                   if distance < speed r * dt
                   then
                     (let r1 = r\<lparr>position := next_pos, current_vertex := Some n\<rparr> in
                      case path r1 of
                        [] \<Rightarrow> (Inl IndexError, r1)
                      | _ # rest \<Rightarrow>
                          (let r2 = (case rest of
                                       [] \<Rightarrow> r1\<lparr>path := rest, next_vertex := None,
                                                 state := COMPLETED\<rparr>
                                     | h # _ \<Rightarrow> r1\<lparr>path := rest, next_vertex := Some h\<rparr>)
                           in (Inr ((state_info (state r2))
                                      \<lparr>info_position := Some (position r2),
                                       info_current_vertex := current_vertex r2\<rparr>), r2)))
                   else
                     (let r1 = (if distance > 0
                                then r\<lparr>position :=
                                         (fst (position r) + fst direction / distance * speed r * dt,
                                          snd (position r) + snd direction / distance * speed r * dt)\<rparr>
                                else r)
                      in (Inr ((state_info (state r1))\<lparr>info_position := Some (position r1)\<rparr>),
                          r1))))))"

text \<open>
  \<open>Robot.update\<close>. The battery drains first, in every state; CHARGING then adds its
  charge. In MOVING the test \<open>not self.next_vertex\<close> is a truthiness test.
\<close>

definition update ::
  "real \<Rightarrow> (vertex \<Rightarrow> pos option) \<Rightarrow> (lane \<times> rid) list \<Rightarrow> robot \<Rightarrow>
   (py_error + update_info) \<times> robot" where
  "update dt vp occ r0 =
     (let r = r0\<lparr>battery := max 0 (battery r0 - 0.01 * dt)\<rparr> in
      if state r = IDLE \<or> state r = COMPLETED then (Inr (state_info (state r)), r)
      else if state r = CHARGING then
        (let r1 = r\<lparr>battery := min 100 (battery r + 0.1 * dt)\<rparr>;
             r2 = (if battery r1 \<ge> 100 then r1\<lparr>state := IDLE\<rparr> else r1)
         in (Inr ((state_info (state r2))\<lparr>info_battery := Some (battery r2)\<rparr>), r2))
      else if state r = WAITING then
        (let r1 = (if lane_blocked occ r then r else r\<lparr>state := MOVING\<rparr>)
         in (Inr (state_info (state r1)), r1))
      else
        (if truthy (next_vertex r) then move_toward_next dt vp occ r
         else
           (case path r of
              [] \<Rightarrow> (Inr (state_info COMPLETED), r\<lparr>state := COMPLETED\<rparr>)
            | _ # rest \<Rightarrow>
                (case rest of
                   [] \<Rightarrow> (Inr (state_info COMPLETED), r\<lparr>path := rest, state := COMPLETED\<rparr>)
                 | h # _ \<Rightarrow>
                     move_toward_next dt vp occ (r\<lparr>path := rest, next_vertex := Some h\<rparr>)))))"

definition start_charging :: "robot \<Rightarrow> robot" where
  "start_charging r = r\<lparr>state := CHARGING\<rparr>"

text \<open>\<open>Robot.cancel_task\<close>.\<close>

definition robot_cancel_task :: "robot \<Rightarrow> robot" where
  "robot_cancel_task r = r\<lparr>destination := None, path := [], next_vertex := None, state := IDLE\<rparr>"

section \<open>FleetManager (controllers/fleet\_manager.py)\<close>

text \<open>
  A task record. Its \<open>path\<close> entry is the very list object the robot consumes and its
  \<open>start_time\<close> is the wall clock; the model keeps the destination, which is all that
  is read back.
\<close>

record task =
  task_destination :: vertex

record fleet_manager =
  nav_graph :: nav_graph
  robots :: "(rid \<times> robot) list"
  tasks :: "(rid \<times> task) list"

definition FleetManager :: "nav_graph \<Rightarrow> fleet_manager" where
  "FleetManager g = \<lparr>nav_graph = g, robots = [], tasks = []\<rparr>"

text \<open>\<open>add_robot\<close>: a plain dict assignment, with no test of the key.\<close>

definition add_robot :: "fleet_manager \<Rightarrow> robot \<Rightarrow> fleet_manager" where
  "add_robot fm r = fm\<lparr>robots := AList.update (robot_id r) r (robots fm)\<rparr>"

definition remove_robot :: "fleet_manager \<Rightarrow> rid \<Rightarrow> bool \<times> fleet_manager" where
  "remove_robot fm i =
     (case map_of (robots fm) i of
        None \<Rightarrow> (False, fm)
      | Some _ \<Rightarrow> (True, fm\<lparr>robots := AList.delete i (robots fm),
                            tasks := AList.delete i (tasks fm)\<rparr>))"

text \<open>
  \<open>assign_task\<close>. The robot object is mutated in place, so its slot in the registry
  keeps its position. \<open>not path\<close> holds for \<open>None\<close> and for the empty list.
\<close>

definition assign_task :: "fleet_manager \<Rightarrow> rid \<Rightarrow> vertex \<Rightarrow> (py_error + bool) \<times> fleet_manager" where
  "assign_task fm i destination_vertex =
     (case map_of (robots fm) i of
        None \<Rightarrow> (Inr False, fm)
      | Some r \<Rightarrow>
          if current_vertex r = Some destination_vertex then (Inr True, fm)
          else
            (case get_path (nav_graph fm) (current_vertex r) destination_vertex of
               Inl e \<Rightarrow> (Inl e, fm)
             | Inr None \<Rightarrow> (Inr False, fm)
             | Inr (Some p) \<Rightarrow>
                 if p = [] then (Inr False, fm)
                 else (Inr True,
                       fm\<lparr>robots := AList.update i (set_destination destination_vertex p r)
                                       (robots fm),
                          tasks := AList.update i \<lparr>task_destination = destination_vertex\<rparr>
                                      (tasks fm)\<rparr>)))"

text \<open>\<open>FleetManager.cancel_task\<close>.\<close>

definition cancel_task :: "fleet_manager \<Rightarrow> rid \<Rightarrow> bool \<times> fleet_manager" where
  "cancel_task fm i =
     (case map_of (robots fm) i of
        None \<Rightarrow> (False, fm)
      | Some r \<Rightarrow> (True, fm\<lparr>robots := AList.update i (robot_cancel_task r) (robots fm),
                            tasks := AList.delete i (tasks fm)\<rparr>))"

text \<open>
  The body of the loop of \<open>update_robots\<close> for one registry entry: the robot's own
  update against the live lane table, the arrival side effect (charging is tested only
  inside the destination test), and the re-registration of the lane from the current to
  the next vertex. The answer of \<open>register_lane_usage\<close> is discarded.
\<close>

definition tick_robot ::
  "nav_graph \<Rightarrow> real \<Rightarrow> rid \<Rightarrow> robot \<Rightarrow> traffic_manager \<Rightarrow>
   (py_error + update_info) \<times> robot \<times> traffic_manager" where
  "tick_robot g dt i r tm =
     (let pre_vertex = current_vertex r in
      case update dt (vertex_positions g) (lane_occupancy tm) r of
        (Inl e, r1) \<Rightarrow> (Inl e, r1, tm)
      | (Inr info, r1) \<Rightarrow>
          (let r2 = (case info_current_vertex info of
                       None \<Rightarrow> r1
                     | Some v \<Rightarrow>
                         if Some v \<noteq> pre_vertex \<and> destination r1 = Some v \<and>
                            v \<in> set (get_chargers g) \<and> battery r1 < 50
                         then start_charging r1 else r1);
               tm1 = (case current_vertex r2 of
                        None \<Rightarrow> tm
                      | Some a \<Rightarrow>
                          (case next_vertex r2 of
                             None \<Rightarrow> tm
                           | Some b \<Rightarrow> snd (register_lane_usage i a b tm)))
           in (Inr info, r2, tm1)))"

text \<open>
  The loop over \<open>self.robots.items()\<close>, in registry order. An exception leaves the loop
  with the robots after the failing one untouched.
\<close>

fun update_loop ::
  "nav_graph \<Rightarrow> real \<Rightarrow> (rid \<times> update_info) list \<Rightarrow> (rid \<times> robot) list \<Rightarrow> traffic_manager \<Rightarrow>
   (py_error + (rid \<times> update_info) list) \<times> (rid \<times> robot) list \<times> traffic_manager" where
  "update_loop g dt updates [] tm = (Inr updates, [], tm)"
| "update_loop g dt updates ((i, r) # rest) tm =
     (case tick_robot g dt i r tm of
        (Inl e, r1, tm1) \<Rightarrow> (Inl e, (i, r1) # rest, tm1)
      | (Inr info, r1, tm1) \<Rightarrow>
          (case update_loop g dt (AList.update i info updates) rest tm1 of
             (res, rest1, tm2) \<Rightarrow> (res, (i, r1) # rest1, tm2)))"

definition update_robots ::
  "real \<Rightarrow> fleet_manager \<Rightarrow> traffic_manager \<Rightarrow>
   (py_error + (rid \<times> update_info) list) \<times> fleet_manager \<times> traffic_manager" where
  "update_robots dt fm tm =
     (case update_loop (nav_graph fm) dt [] (robots fm) tm of
        (res, rs, tm1) \<Rightarrow> (res, fm\<lparr>robots := rs\<rparr>, tm1))"

text \<open>
  The simulation loop of the front end, reduced to its calls of \<open>update_robots\<close>: one
  tick per time delta, stopping at the first exception.
\<close>

fun run_ticks ::
  "real list \<Rightarrow> fleet_manager \<Rightarrow> traffic_manager \<Rightarrow>
   py_error option \<times> fleet_manager \<times> traffic_manager" where
  "run_ticks [] fm tm = (None, fm, tm)"
| "run_ticks (dt # dts) fm tm =
     (case update_robots dt fm tm of
        (Inl e, fm1, tm1) \<Rightarrow> (Some e, fm1, tm1)
      | (Inr _, fm1, tm1) \<Rightarrow> run_ticks dts fm1 tm1)"

text \<open>
  The two managers created side by side by \<open>main\<close>. \<open>assign_task\<close> is a method of the
  fleet manager, which holds no reference to the traffic manager: in the state of the
  whole program it changes the fleet component only.
\<close>

record system =
  fleet :: fleet_manager
  traffic :: traffic_manager

definition sys_assign_task :: "system \<Rightarrow> rid \<Rightarrow> vertex \<Rightarrow> (py_error + bool) \<times> system" where
  "sys_assign_task s i d =
     (case assign_task (fleet s) i d of (res, fm) \<Rightarrow> (res, s\<lparr>fleet := fm\<rparr>))"

section \<open>Example scenarios\<close>

text \<open>
  A line of three vertices one unit apart, with a charger at vertex 1, and the paths
  networkx returns on it.
\<close>

definition line_nodes :: "(vertex \<times> pos) list" where
  "line_nodes = [(0, (0, 0)), (1, (1, 0)), (2, (2, 0))]"

definition line_positions :: "vertex \<Rightarrow> pos option" where
  "line_positions = map_of (rev line_nodes)"

definition line_shortest_path :: "vertex option \<Rightarrow> vertex \<Rightarrow> nx_result" where
  "line_shortest_path s t =
     (if s = Some 0 \<and> t = 0 then NxPath [0]
      else if s = Some 0 \<and> t = 1 then NxPath [0, 1]
      else if s = Some 0 \<and> t = 2 then NxPath [0, 1, 2]
      else if s = Some 1 \<and> t = 0 then NxPath [1, 0]
      else if s = Some 1 \<and> t = 1 then NxPath [1]
      else if s = Some 1 \<and> t = 2 then NxPath [1, 2]
      else if s = Some 2 \<and> t = 2 then NxPath [2]
      else if s = Some 2 \<and> (t = 0 \<or> t = 1) then NxNoPath
      else NxNodeNotFound)"

definition line_graph :: nav_graph where
  "line_graph = \<lparr>nodes = line_nodes, chargers = [1], shortest_path = line_shortest_path\<rparr>"

text \<open>A robot spawned at vertex 1 and sent to vertex 0, and the same robot sent to vertex 2.\<close>

definition robot_to_zero :: robot where
  "robot_to_zero = set_destination 0 [1, 0] (Robot ''R1'' (1, 0) (Some 1))"

definition robot_to_two :: robot where
  "robot_to_two = set_destination 2 [1, 2] (Robot ''R1'' (1, 0) (Some 1))"

text \<open>A robot spawned at vertex 0 and sent to vertex 2 through vertex 1.\<close>

definition robot_via_one :: robot where
  "robot_via_one = set_destination 2 [0, 1, 2] (Robot ''R1'' (0, 0) (Some 0))"

text \<open>
  A robot charging at vertex 0 with battery 60 while the table records lane (0, 1) and
  vertex 0 under its id; a fleet of one robot at vertex 0; a fleet of one robot at
  vertex 2.
\<close>

definition charging_system :: system where
  "charging_system =
     \<lparr>fleet = add_robot (FleetManager line_graph)
                (start_charging ((Robot ''R1'' (0, 0) (Some 0))\<lparr>battery := 60\<rparr>)),
      traffic = snd (register_lane_usage ''R1'' 0 1 TrafficManager)\<rparr>"

definition fleet_one :: fleet_manager where
  "fleet_one = add_robot (FleetManager line_graph) (Robot ''R1'' (0, 0) (Some 0))"

definition fleet_at_two :: fleet_manager where
  "fleet_at_two = add_robot (FleetManager line_graph) (Robot ''R2'' (2, 0) (Some 2))"

text \<open>
  The fleet of one robot after 6000 idle seconds (battery 40), then sent to vertex 2 or
  to the charger at vertex 1.
\<close>

definition low_battery_fleet :: fleet_manager where
  "low_battery_fleet = fst (snd (update_robots 6000 fleet_one TrafficManager))"

definition fleet_to_two :: fleet_manager where
  "fleet_to_two = snd (assign_task low_battery_fleet ''R1'' 2)"

definition fleet_to_one :: fleet_manager where
  "fleet_to_one = snd (assign_task low_battery_fleet ''R1'' 1)"

text \<open>
  The robot sent to vertex 2 after five ticks of 20 seconds: the fleet and the occupancy
  tables at that point, and the fleet after a second robot is then spawned at vertex 0
  and sent to vertex 1.
\<close>

definition fleet_done :: fleet_manager where
  "fleet_done = fst (snd (run_ticks [20, 20, 20, 20, 20] fleet_to_two TrafficManager))"

definition traffic_done :: traffic_manager where
  "traffic_done = snd (snd (run_ticks [20, 20, 20, 20, 20] fleet_to_two TrafficManager))"

definition fleet_second :: fleet_manager where
  "fleet_second =
     snd (assign_task (add_robot fleet_done (Robot ''R2'' (0, 0) (Some 0))) ''R2'' 1)"

section \<open>Properties of the occupancy table\<close>

lemma register_lane_usage_free:
  "map_of (lane_occupancy tm) (s, e) = None \<or> map_of (lane_occupancy tm) (s, e) = Some a \<Longrightarrow>
   register_lane_usage a s e tm =
     (True, tm\<lparr>lane_occupancy := AList.update (s, e) a (lane_occupancy tm),
               vertex_occupancy := AList.update s a (vertex_occupancy tm)\<rparr>)"
  by (auto simp: register_lane_usage_def)

lemma register_lane_usage_held:
  "map_of (lane_occupancy tm) (s, e) = Some b \<Longrightarrow> b \<noteq> a \<Longrightarrow>
   register_lane_usage a s e tm = (False, tm)"
  by (simp add: register_lane_usage_def)

lemma register_lane_usage_twice:
  "register_lane_usage a s e (snd (register_lane_usage a s e tm)) = register_lane_usage a s e tm"
proof (cases "fst (register_lane_usage a s e tm)")
  case False
  then have "snd (register_lane_usage a s e tm) = tm"
    by (auto simp: register_lane_usage_def Let_def split: if_splits)
  then show ?thesis by simp
next
  case True
  then have free: "map_of (lane_occupancy tm) (s, e) = None \<or>
                   map_of (lane_occupancy tm) (s, e) = Some a"
    by (auto simp: register_lane_usage_def Let_def split: if_splits option.splits)
  let ?tm1 = "tm\<lparr>lane_occupancy := AList.update (s, e) a (lane_occupancy tm),
                 vertex_occupancy := AList.update s a (vertex_occupancy tm)\<rparr>"
  have first: "register_lane_usage a s e tm = (True, ?tm1)"
    using free by (rule register_lane_usage_free)
  have "map_of (lane_occupancy ?tm1) (s, e) = Some a"
    by (simp add: update_conv')
  then have "register_lane_usage a s e ?tm1 =
      (True, ?tm1\<lparr>lane_occupancy := AList.update (s, e) a (lane_occupancy ?tm1),
                  vertex_occupancy := AList.update s a (vertex_occupancy ?tm1)\<rparr>)"
    by (intro register_lane_usage_free) simp
  then show ?thesis using first by simp
qed

text \<open>
  C3. In every occupancy state, \<open>register_lane_usage\<close> for a lane that is unheld or
  held by the caller returns true and records the lane and its start vertex under the
  caller; for a lane held by a different robot it returns false and changes neither
  table; and repeating a call leaves the table as the first call left it, with the same
  answer.
\<close>

theorem register_lane_usage_spec:
  "(map_of (lane_occupancy tm) (s, e) = None \<or> map_of (lane_occupancy tm) (s, e) = Some a \<longrightarrow>
      fst (register_lane_usage a s e tm) = True \<and>
      map_of (lane_occupancy (snd (register_lane_usage a s e tm))) (s, e) = Some a \<and>
      map_of (vertex_occupancy (snd (register_lane_usage a s e tm))) s = Some a \<and>
      lane_occupancy (snd (register_lane_usage a s e tm)) =
        AList.update (s, e) a (lane_occupancy tm) \<and>
      vertex_occupancy (snd (register_lane_usage a s e tm)) =
        AList.update s a (vertex_occupancy tm)) \<and>
   (\<forall>b. map_of (lane_occupancy tm) (s, e) = Some b \<and> b \<noteq> a \<longrightarrow>
      register_lane_usage a s e tm = (False, tm)) \<and>
   register_lane_usage a s e (snd (register_lane_usage a s e tm)) =
     (fst (register_lane_usage a s e tm), snd (register_lane_usage a s e tm))"
proof (intro conjI impI allI)
  assume free: "map_of (lane_occupancy tm) (s, e) = None \<or>
                map_of (lane_occupancy tm) (s, e) = Some a"
  note r = register_lane_usage_free [OF free]
  show "fst (register_lane_usage a s e tm) = True" by (simp add: r)
  show "map_of (lane_occupancy (snd (register_lane_usage a s e tm))) (s, e) = Some a"
    by (simp add: r update_conv')
  show "map_of (vertex_occupancy (snd (register_lane_usage a s e tm))) s = Some a"
    by (simp add: r update_conv')
  show "lane_occupancy (snd (register_lane_usage a s e tm)) =
        AList.update (s, e) a (lane_occupancy tm)" by (simp add: r)
  show "vertex_occupancy (snd (register_lane_usage a s e tm)) =
        AList.update s a (vertex_occupancy tm)" by (simp add: r)
next
  fix b
  assume "map_of (lane_occupancy tm) (s, e) = Some b \<and> b \<noteq> a"
  then show "register_lane_usage a s e tm = (False, tm)"
    by (simp add: register_lane_usage_held)
next
  show "register_lane_usage a s e (snd (register_lane_usage a s e tm)) =
     (fst (register_lane_usage a s e tm), snd (register_lane_usage a s e tm))"
    by (simp add: register_lane_usage_twice)
qed

text \<open>
  Scenario: robot R1 takes lane (0, 1) on an empty table and asks again (same table);
  robot R2 is then refused and R1 stays the holder.
\<close>

theorem register_lane_usage_spec_witness:
  "register_lane_usage ''R1'' 0 1 TrafficManager =
     (True, \<lparr>lane_occupancy = [((0, 1), ''R1'')], vertex_occupancy = [(0, ''R1'')]\<rparr>) \<and>
   register_lane_usage ''R1'' 0 1 (snd (register_lane_usage ''R1'' 0 1 TrafficManager)) =
     (True, \<lparr>lane_occupancy = [((0, 1), ''R1'')], vertex_occupancy = [(0, ''R1'')]\<rparr>) \<and>
   register_lane_usage ''R2'' 0 1 (snd (register_lane_usage ''R1'' 0 1 TrafficManager)) =
     (False, \<lparr>lane_occupancy = [((0, 1), ''R1'')], vertex_occupancy = [(0, ''R1'')]\<rparr>)"
proof -
  let ?tm1 = "\<lparr>lane_occupancy = [((0, 1), ''R1'')], vertex_occupancy = [(0, ''R1'')]\<rparr>"
  have first: "register_lane_usage ''R1'' 0 1 TrafficManager = (True, ?tm1)"
    by (simp add: register_lane_usage_def TrafficManager_def)
  have held: "map_of (lane_occupancy ?tm1) (0, 1) = Some ''R1'' \<and> ''R1'' \<noteq> ''R2''"
    by simp
  from register_lane_usage_spec [of TrafficManager 0 1 "''R1''"]
  have again: "register_lane_usage ''R1'' 0 1 (snd (register_lane_usage ''R1'' 0 1 TrafficManager))
      = (True, ?tm1)"
    using first by simp
  from register_lane_usage_spec [of ?tm1 0 1 "''R2''"] held
  have "register_lane_usage ''R2'' 0 1 ?tm1 = (False, ?tm1)"
    by blast
  with first again show ?thesis by simp
qed

section \<open>Properties of the robot's tick\<close>

lemma line_positions_simps:
  "line_positions 0 = Some (0, 0)" "line_positions 1 = Some (1, 0)"
  "line_positions 2 = Some (2, 0)"
  by (simp_all add: line_positions_def line_nodes_def)

lemma robot_to_zero_eq:
  "robot_to_zero = \<lparr>robot_id = ''R1'', position = (1, 0), current_vertex = Some 1,
      destination = Some 0, path = [1, 0], next_vertex = Some 0, state = MOVING,
      speed = 0.05, battery = 100\<rparr>"
  by (simp add: robot_to_zero_def set_destination_def Robot_def)

lemma robot_to_two_eq:
  "robot_to_two = \<lparr>robot_id = ''R1'', position = (1, 0), current_vertex = Some 1,
      destination = Some 2, path = [1, 2], next_vertex = Some 2, state = MOVING,
      speed = 0.05, battery = 100\<rparr>"
  by (simp add: robot_to_two_def set_destination_def Robot_def)

lemma robot_via_one_eq:
  "robot_via_one = \<lparr>robot_id = ''R1'', position = (0, 0), current_vertex = Some 0,
      destination = Some 2, path = [0, 1, 2], next_vertex = Some 1, state = MOVING,
      speed = 0.05, battery = 100\<rparr>"
  by (simp add: robot_via_one_def set_destination_def Robot_def)

lemma move_toward_next_battery:
  "battery (snd (move_toward_next dt vp occ r)) = battery r"
  by (simp add: move_toward_next_def Let_def split: option.splits list.splits)

lemma move_toward_next_path_length:
  "length (path (snd (move_toward_next dt vp occ r))) \<le> length (path r)"
  by (simp add: move_toward_next_def Let_def split: option.splits list.splits)

lemma update_battery_eq:
  "battery (snd (update dt vp occ r)) =
     (if state r = CHARGING then min 100 (max 0 (battery r - 0.01 * dt) + 0.1 * dt)
      else max 0 (battery r - 0.01 * dt))"
  by (simp add: update_def Let_def move_toward_next_battery split: list.splits)

text \<open>
  C8. On a tick with \<open>dt > 0\<close> of a robot whose battery is in [0, 100]: outside CHARGING
  the battery drops by \<open>0.01 * dt\<close>, floored at 0 (so it never rises, and falls
  whenever it was above 0); in CHARGING the drain is followed by a charge of
  \<open>0.1 * dt\<close>, capped at 100 (so it never falls, and rises whenever it was below 100);
  and the battery after the tick is again in [0, 100].
\<close>

theorem update_battery:
  assumes "0 < dt" and "0 \<le> battery r" and "battery r \<le> 100"
  shows "(state r \<noteq> CHARGING \<longrightarrow>
            battery (snd (update dt vp occ r)) = max 0 (battery r - 0.01 * dt) \<and>
            battery (snd (update dt vp occ r)) \<le> battery r \<and>
            (0 < battery r \<longrightarrow> battery (snd (update dt vp occ r)) < battery r)) \<and>
         (state r = CHARGING \<longrightarrow>
            battery (snd (update dt vp occ r)) =
              min 100 (max 0 (battery r - 0.01 * dt) + 0.1 * dt) \<and>
            battery r \<le> battery (snd (update dt vp occ r)) \<and>
            (battery r < 100 \<longrightarrow> battery r < battery (snd (update dt vp occ r)))) \<and>
         0 \<le> battery (snd (update dt vp occ r)) \<and>
         battery (snd (update dt vp occ r)) \<le> 100"
  using assms unfolding update_battery_eq by (auto simp: max_def min_def)

text \<open>
  A moving robot at full battery loses 0.3 in a tick of 30 seconds; the same robot put
  on charge at battery 40 gains 2.7 (3 of charge less 0.3 of drain).
\<close>

theorem update_battery_witness:
  "battery (snd (update 30 line_positions [] robot_via_one)) = 99.7 \<and>
   battery (snd (update 30 line_positions []
                   (start_charging (robot_via_one\<lparr>battery := 40\<rparr>)))) = 42.7"
proof -
  have a: "battery robot_via_one = 100" "state robot_via_one = MOVING"
    by (simp_all add: robot_via_one_eq)
  have b: "battery (start_charging (robot_via_one\<lparr>battery := 40\<rparr>)) = 40"
    "state (start_charging (robot_via_one\<lparr>battery := 40\<rparr>)) = CHARGING"
    by (simp_all add: start_charging_def)
  from update_battery [of 30 robot_via_one line_positions "[]"] a
  have "battery (snd (update 30 line_positions [] robot_via_one)) = 99.7" by simp
  moreover
  from update_battery [of 30 "start_charging (robot_via_one\<lparr>battery := 40\<rparr>)"
      line_positions "[]"] b
  have "battery (snd (update 30 line_positions []
                   (start_charging (robot_via_one\<lparr>battery := 40\<rparr>)))) = 42.7" by simp
  ultimately show ?thesis by simp
qed

text \<open>
  C10. In state MOVING the test for a missing next vertex is a truthiness test. With next
  vertex 0 (or none) the tick first consumes the head of the path: it completes at once
  when at most one element is left, and otherwise moves on from the shortened path
  with its new head as next vertex, so a non-empty path always comes out shorter. With
  a non-zero next vertex nothing is consumed before the move. A robot with next vertex
  0 and one with none get the same answer and the same robot, next vertex apart.
\<close>

theorem update_moving_truthiness:
  assumes "state r = MOVING"
  shows "(next_vertex r = Some 0 \<or> next_vertex r = None \<longrightarrow>
            (path r = [] \<longrightarrow>
               update dt vp occ r =
                 (Inr (state_info COMPLETED),
                  r\<lparr>battery := max 0 (battery r - 0.01 * dt), state := COMPLETED\<rparr>)) \<and>
            (\<forall>x. path r = [x] \<longrightarrow>
               update dt vp occ r =
                 (Inr (state_info COMPLETED),
                  r\<lparr>battery := max 0 (battery r - 0.01 * dt), path := [],
                    state := COMPLETED\<rparr>)) \<and>
            (\<forall>x y ys. path r = x # y # ys \<longrightarrow>
               update dt vp occ r =
                 move_toward_next dt vp occ
                   (r\<lparr>battery := max 0 (battery r - 0.01 * dt), path := y # ys,
                      next_vertex := Some y\<rparr>)) \<and>
            (path r \<noteq> [] \<longrightarrow>
               length (path (snd (update dt vp occ r))) < length (path r))) \<and>
         (\<forall>n. next_vertex r = Some n \<and> n \<noteq> 0 \<longrightarrow>
            update dt vp occ r =
              move_toward_next dt vp occ (r\<lparr>battery := max 0 (battery r - 0.01 * dt)\<rparr>)) \<and>
         fst (update dt vp occ (r\<lparr>next_vertex := Some 0\<rparr>)) =
           fst (update dt vp occ (r\<lparr>next_vertex := None\<rparr>)) \<and>
         (snd (update dt vp occ (r\<lparr>next_vertex := Some 0\<rparr>)))\<lparr>next_vertex := None\<rparr> =
           (snd (update dt vp occ (r\<lparr>next_vertex := None\<rparr>)))\<lparr>next_vertex := None\<rparr>"
proof (intro conjI impI allI)
  assume nv: "next_vertex r = Some 0 \<or> next_vertex r = None"
  then have nt: "\<not> truthy (next_vertex r)" by (auto simp: truthy_def)
  show "update dt vp occ r =
          (Inr (state_info COMPLETED),
           r\<lparr>battery := max 0 (battery r - 0.01 * dt), state := COMPLETED\<rparr>)"
    if "path r = []"
    using assms nt that by (simp add: update_def Let_def)
  show "update dt vp occ r =
          (Inr (state_info COMPLETED),
           r\<lparr>battery := max 0 (battery r - 0.01 * dt), path := [], state := COMPLETED\<rparr>)"
    if "path r = [x]" for x
    using assms nt that by (simp add: update_def Let_def)
  show step: "update dt vp occ r =
          move_toward_next dt vp occ
            (r\<lparr>battery := max 0 (battery r - 0.01 * dt), path := y # ys,
               next_vertex := Some y\<rparr>)"
    if "path r = x # y # ys" for x y ys
    using assms nt that by (simp add: update_def Let_def)
  show "length (path (snd (update dt vp occ r))) < length (path r)" if ne: "path r \<noteq> []"
  proof (cases "path r")
    case Nil
    with ne show ?thesis by simp
  next
    case (Cons x rest)
    show ?thesis
    proof (cases rest)
      case Nil
      with Cons assms nt show ?thesis by (simp add: update_def Let_def)
    next
      case (Cons y ys)
      with \<open>path r = x # rest\<close> have p: "path r = x # y # ys" by simp
      have "length (path (snd (update dt vp occ r))) \<le> length (y # ys)"
        using move_toward_next_path_length
          [of dt vp occ "r\<lparr>battery := max 0 (battery r - 0.01 * dt), path := y # ys,
                           next_vertex := Some y\<rparr>"]
        by (simp add: step [OF p])
      with p show ?thesis by simp
    qed
  qed
next
  fix n
  assume "next_vertex r = Some n \<and> n \<noteq> 0"
  then have "truthy (next_vertex r)" by (simp add: truthy_def)
  with assms show "update dt vp occ r =
      move_toward_next dt vp occ (r\<lparr>battery := max 0 (battery r - 0.01 * dt)\<rparr>)"
    by (simp add: update_def Let_def)
next
  show "fst (update dt vp occ (r\<lparr>next_vertex := Some 0\<rparr>)) =
        fst (update dt vp occ (r\<lparr>next_vertex := None\<rparr>))"
    using assms by (simp add: update_def Let_def truthy_def split: list.splits)
  show "(snd (update dt vp occ (r\<lparr>next_vertex := Some 0\<rparr>)))\<lparr>next_vertex := None\<rparr> =
        (snd (update dt vp occ (r\<lparr>next_vertex := None\<rparr>)))\<lparr>next_vertex := None\<rparr>"
    using assms by (simp add: update_def Let_def truthy_def split: list.splits)
qed

text \<open>
  Two robots at vertex 1 of the line, one sent to vertex 0 and one to vertex 2, after a
  tick of one second: the first has lost the head of its path, the second has not.
\<close>

theorem update_moving_truthiness_witness:
  "state robot_to_zero = MOVING \<and> next_vertex robot_to_zero = Some 0 \<and>
   path robot_to_zero = [1, 0] \<and>
   path (snd (update 1 line_positions [] robot_to_zero)) = [0] \<and>
   state robot_to_two = MOVING \<and> next_vertex robot_to_two = Some 2 \<and>
   path robot_to_two = [1, 2] \<and>
   path (snd (update 1 line_positions [] robot_to_two)) = [1, 2]"
proof -
  have z: "state robot_to_zero = MOVING" "next_vertex robot_to_zero = Some 0"
    "path robot_to_zero = [1, 0]"
    by (simp_all add: robot_to_zero_eq)
  have t: "state robot_to_two = MOVING" "next_vertex robot_to_two = Some 2"
    "path robot_to_two = [1, 2]"
    by (simp_all add: robot_to_two_eq)
  from update_moving_truthiness [OF z(1), of 1 line_positions "[]"] z(2,3)
  have "update 1 line_positions [] robot_to_zero =
          move_toward_next 1 line_positions []
            (robot_to_zero\<lparr>battery := max 0 (battery robot_to_zero - 0.01 * 1), path := [0],
               next_vertex := Some 0\<rparr>)"
    by blast
  then have pz: "path (snd (update 1 line_positions [] robot_to_zero)) = [0]"
    by (simp add: robot_to_zero_eq move_toward_next_def lane_blocked_def line_positions_simps
        Let_def state_info_def)
  from update_moving_truthiness [OF t(1), of 1 line_positions "[]"] t(2)
  have "update 1 line_positions [] robot_to_two =
          move_toward_next 1 line_positions []
            (robot_to_two\<lparr>battery := max 0 (battery robot_to_two - 0.01 * 1)\<rparr>)"
    by simp
  then have pt: "path (snd (update 1 line_positions [] robot_to_two)) = [1, 2]"
    by (simp add: robot_to_two_eq move_toward_next_def lane_blocked_def line_positions_simps
        Let_def state_info_def)
  from z t pz pt show ?thesis by simp
qed

text \<open>
  C5, at a concrete tick. The robot sent from vertex 0 to vertex 2 through vertex 1
  snaps onto vertex 1 in a tick of 30 seconds. The path left is [1, 2] and its head is
  the current vertex, but the next vertex is that same head, vertex 1, and not the
  second element, vertex 2.
\<close>

theorem update_snap_next_vertex:
  "update 30 line_positions [] robot_via_one =
     (Inr \<lparr>info_state = MOVING, info_battery = None, info_position = Some (1, 0),
           info_current_vertex = Some 1\<rparr>,
      \<lparr>robot_id = ''R1'', position = (1, 0), current_vertex = Some 1,
       destination = Some 2, path = [1, 2], next_vertex = Some 1, state = MOVING,
       speed = 0.05, battery = 99.7\<rparr>)"
  by (simp add: robot_via_one_eq update_def truthy_def move_toward_next_def lane_blocked_def
      line_positions_simps Let_def state_info_def)

section \<open>Properties of the fleet manager\<close>

lemma update_fresh_key: "k \<notin> fst ` set al \<Longrightarrow> AList.update k v al = al @ [(k, v)]"
  by (induction al) auto

text \<open>
  C4 as stated fails: adding a second robot under the id R1 is accepted, and the robot
  registered first is gone from the registry.
\<close>

theorem add_robot_duplicate_counterexample:
  "robots fleet_one = [(''R1'', Robot ''R1'' (0, 0) (Some 0))] \<and>
   robots (add_robot fleet_one (Robot ''R1'' (2, 0) (Some 2))) =
     [(''R1'', Robot ''R1'' (2, 0) (Some 2))] \<and>
   robots (add_robot fleet_one (Robot ''R1'' (2, 0) (Some 2))) \<noteq> robots fleet_one"
  by (simp add: fleet_one_def add_robot_def FleetManager_def Robot_def)

text \<open>
  C4, amended. \<open>add_robot\<close> always succeeds. The new robot is the one found under its
  id afterwards; every other id keeps its robot; an id that was registered keeps its
  place in the registry order, a new id goes to the end; the task records and the graph
  are not touched.
\<close>

theorem add_robot_replaces:
  "map_of (robots (add_robot fm r)) (robot_id r) = Some r \<and>
   (\<forall>k. k \<noteq> robot_id r \<longrightarrow> map_of (robots (add_robot fm r)) k = map_of (robots fm) k) \<and>
   (robot_id r \<in> fst ` set (robots fm) \<longrightarrow>
      map fst (robots (add_robot fm r)) = map fst (robots fm)) \<and>
   (robot_id r \<notin> fst ` set (robots fm) \<longrightarrow>
      robots (add_robot fm r) = robots fm @ [(robot_id r, r)]) \<and>
   tasks (add_robot fm r) = tasks fm \<and> nav_graph (add_robot fm r) = nav_graph fm"
  by (simp add: add_robot_def update_conv' update_keys update_fresh_key)

theorem add_robot_replaces_witness:
  "map_of (robots (add_robot fleet_one (Robot ''R1'' (2, 0) (Some 2)))) ''R1'' =
     Some (Robot ''R1'' (2, 0) (Some 2)) \<and>
   map fst (robots (add_robot fleet_one (Robot ''R1'' (2, 0) (Some 2)))) = [''R1''] \<and>
   robots (add_robot fleet_one (Robot ''R2'' (2, 0) (Some 2))) =
     [(''R1'', Robot ''R1'' (0, 0) (Some 0)), (''R2'', Robot ''R2'' (2, 0) (Some 2))]"
proof -
  have k: "robots fleet_one = [(''R1'', Robot ''R1'' (0, 0) (Some 0))]"
    by (simp add: fleet_one_def add_robot_def FleetManager_def Robot_def)
  have i1: "robot_id (Robot ''R1'' (2, 0) (Some 2)) = ''R1''"
    and i2: "robot_id (Robot ''R2'' (2, 0) (Some 2)) = ''R2''"
    by (simp_all add: Robot_def)
  from add_robot_replaces [of fleet_one "Robot ''R1'' (2, 0) (Some 2)"]
  have a: "map_of (robots (add_robot fleet_one (Robot ''R1'' (2, 0) (Some 2)))) ''R1'' =
     Some (Robot ''R1'' (2, 0) (Some 2))"
    and b: "map fst (robots (add_robot fleet_one (Robot ''R1'' (2, 0) (Some 2)))) = [''R1'']"
    by (simp_all add: i1 k)
  from add_robot_replaces [of fleet_one "Robot ''R2'' (2, 0) (Some 2)"]
  have c: "robots (add_robot fleet_one (Robot ''R2'' (2, 0) (Some 2))) =
     [(''R1'', Robot ''R1'' (0, 0) (Some 0)), (''R2'', Robot ''R2'' (2, 0) (Some 2))]"
    by (simp add: i2 k)
  from a b c show ?thesis by simp
qed

text \<open>
  C6. \<open>assign_task\<close> for an unknown robot id, or for a robot that is not at the
  destination and for which \<open>get_path\<close> returns no path (\<open>None\<close>, or an empty list),
  returns false and leaves the whole fleet manager (every robot's state, destination,
  path and next vertex, and the task records) as it was.
\<close>

theorem assign_task_fails:
  assumes "map_of (robots fm) i = None \<or>
           (\<exists>r. map_of (robots fm) i = Some r \<and> current_vertex r \<noteq> Some d \<and>
                (get_path (nav_graph fm) (current_vertex r) d = Inr None \<or>
                 get_path (nav_graph fm) (current_vertex r) d = Inr (Some [])))"
  shows "assign_task fm i d = (Inr False, fm)"
  using assms by (auto simp: assign_task_def)

text \<open>
  On the line graph nothing leads from vertex 2 back to vertex 0, and no robot is called
  R9.
\<close>

theorem assign_task_fails_witness:
  "assign_task fleet_at_two ''R2'' 0 = (Inr False, fleet_at_two) \<and>
   assign_task fleet_at_two ''R9'' 0 = (Inr False, fleet_at_two)"
proof -
  have r: "map_of (robots fleet_at_two) ''R2'' = Some (Robot ''R2'' (2, 0) (Some 2))"
    "map_of (robots fleet_at_two) ''R9'' = None"
    by (simp_all add: fleet_at_two_def add_robot_def FleetManager_def Robot_def)
  have p: "get_path (nav_graph fleet_at_two) (current_vertex (Robot ''R2'' (2, 0) (Some 2))) 0
             = Inr None"
    by (simp add: fleet_at_two_def add_robot_def FleetManager_def Robot_def get_path_def
        line_graph_def line_shortest_path_def)
  have c: "current_vertex (Robot ''R2'' (2, 0) (Some 2)) \<noteq> Some 0"
    by (simp add: Robot_def)
  have "assign_task fleet_at_two ''R2'' 0 = (Inr False, fleet_at_two)"
    using r(1) p c by (intro assign_task_fails) blast
  moreover have "assign_task fleet_at_two ''R9'' 0 = (Inr False, fleet_at_two)"
    using r(2) by (intro assign_task_fails) blast
  ultimately show ?thesis by simp
qed

lemma update_loop_keys:
  "map fst (fst (snd (update_loop g dt ups rs tm))) = map fst rs"
proof (induction rs arbitrary: ups tm)
  case Nil
  then show ?case by simp
next
  case (Cons x rs)
  obtain i r where x: "x = (i, r)" by (cases x)
  obtain res r1 tm1 where t: "tick_robot g dt i r tm = (res, r1, tm1)"
    by (cases "tick_robot g dt i r tm") auto
  show ?case
  proof (cases res)
    case (Inl e)
    with x t show ?thesis by simp
  next
    case (Inr info)
    obtain res2 rest1 tm2
      where u: "update_loop g dt (AList.update i info ups) rs tm1 = (res2, rest1, tm2)"
      by (cases "update_loop g dt (AList.update i info ups) rs tm1") auto
    from Cons.IH [of "AList.update i info ups" tm1] u
    have "map fst rest1 = map fst rs" by simp
    with x t Inr u show ?thesis by simp
  qed
qed

lemma update_robots_keys:
  "map fst (robots (fst (snd (update_robots dt fm tm)))) = map fst (robots fm)"
proof -
  obtain res rs tm1 where u: "update_loop (nav_graph fm) dt [] (robots fm) tm = (res, rs, tm1)"
    by (cases "update_loop (nav_graph fm) dt [] (robots fm) tm") auto
  from update_loop_keys [of "nav_graph fm" dt "[]" "robots fm" tm] u
  have "map fst rs = map fst (robots fm)" by simp
  with u show ?thesis by (simp add: update_robots_def)
qed

lemma run_ticks_keys:
  "map fst (robots (fst (snd (run_ticks dts fm tm)))) = map fst (robots fm)"
proof (induction dts arbitrary: fm tm)
  case Nil
  then show ?case by simp
next
  case (Cons dt dts)
  obtain res fm1 tm1 where u: "update_robots dt fm tm = (res, fm1, tm1)"
    by (cases "update_robots dt fm tm") auto
  have k: "map fst (robots fm1) = map fst (robots fm)"
    using update_robots_keys [of dt fm tm] u by simp
  show ?case
  proof (cases res)
    case (Inl e)
    with u k show ?thesis by simp
  next
    case (Inr ups)
    with u k Cons.IH [of fm1 tm1] show ?thesis by simp
  qed
qed

lemma map_of_in_keys: "map_of xs k \<noteq> None \<longleftrightarrow> k \<in> set (map fst xs)"
  by (simp add: map_of_eq_None_iff)

lemma map_of_Some_key: "map_of xs k = Some v \<Longrightarrow> k \<in> fst ` set xs"
  by (force dest: map_of_SomeD)

lemma assign_task_keys:
  "map fst (robots (snd (assign_task fm i d))) = map fst (robots fm)"
  by (auto simp: assign_task_def update_keys split: option.splits sum.splits
      dest: map_of_Some_key)

lemma cancel_task_registered:
  assumes "i \<in> set (map fst (robots fm))"
  shows "fst (cancel_task fm i) = True \<and>
         (\<exists>r'. map_of (robots (snd (cancel_task fm i))) i = Some r' \<and> state r' = IDLE \<and>
               path r' = [] \<and> destination r' = None \<and> next_vertex r' = None) \<and>
         map_of (tasks (snd (cancel_task fm i))) i = None"
proof -
  from assms obtain r where r: "map_of (robots fm) i = Some r"
    using map_of_in_keys [of "robots fm" i] by auto
  then show ?thesis
    by (simp add: cancel_task_def update_conv' delete_conv' robot_cancel_task_def)
qed

text \<open>
  C7. For a registered robot and a destination that is its current vertex or is reached
  by a non-empty path, \<open>assign_task\<close> returns true; and after any sequence of ticks that
  follows (whether or not one of them ends in an exception), \<open>cancel_task\<close> returns
  true, leaves the robot IDLE with empty path, no destination and no next vertex, and
  leaves no task record for it.
\<close>

theorem assign_then_cancel:
  assumes "map_of (robots fm) i = Some r"
    and "current_vertex r = Some d \<or>
         (\<exists>p. get_path (nav_graph fm) (current_vertex r) d = Inr (Some p) \<and> p \<noteq> [])"
  shows "fst (assign_task fm i d) = Inr True \<and>
         fst (cancel_task (fst (snd (run_ticks dts (snd (assign_task fm i d)) tm))) i) = True \<and>
         (\<exists>r'. map_of (robots (snd (cancel_task
                   (fst (snd (run_ticks dts (snd (assign_task fm i d)) tm))) i))) i = Some r' \<and>
               state r' = IDLE \<and> path r' = [] \<and> destination r' = None \<and>
               next_vertex r' = None) \<and>
         map_of (tasks (snd (cancel_task
                   (fst (snd (run_ticks dts (snd (assign_task fm i d)) tm))) i))) i = None"
proof -
  have ok: "fst (assign_task fm i d) = Inr True"
    using assms by (auto simp: assign_task_def)
  have "i \<in> set (map fst (robots fm))"
    using assms(1) map_of_in_keys [of "robots fm" i] by simp
  then have "i \<in> set (map fst (robots (fst (snd (run_ticks dts (snd (assign_task fm i d)) tm)))))"
    by (simp only: run_ticks_keys assign_task_keys)
  from cancel_task_registered [OF this] ok show ?thesis by simp
qed

theorem assign_then_cancel_witness:
  "map_of (robots fleet_one) ''R1'' = Some (Robot ''R1'' (0, 0) (Some 0)) \<and>
   get_path (nav_graph fleet_one) (current_vertex (Robot ''R1'' (0, 0) (Some 0))) 2 =
     Inr (Some [0, 1, 2]) \<and>
   fst (assign_task fleet_one ''R1'' 2) = Inr True \<and>
   fst (cancel_task (fst (snd (run_ticks [30, 1] (snd (assign_task fleet_one ''R1'' 2))
                                  TrafficManager))) ''R1'') = True \<and>
   map_of (tasks (snd (cancel_task (fst (snd (run_ticks [30, 1]
             (snd (assign_task fleet_one ''R1'' 2)) TrafficManager))) ''R1''))) ''R1'' = None"
proof -
  have r: "map_of (robots fleet_one) ''R1'' = Some (Robot ''R1'' (0, 0) (Some 0))"
    by (simp add: fleet_one_def add_robot_def FleetManager_def Robot_def)
  have p: "get_path (nav_graph fleet_one) (current_vertex (Robot ''R1'' (0, 0) (Some 0))) 2 =
     Inr (Some [0, 1, 2])"
    by (simp add: fleet_one_def add_robot_def FleetManager_def Robot_def get_path_def
        line_graph_def line_shortest_path_def)
  then have "current_vertex (Robot ''R1'' (0, 0) (Some 0)) = Some 2 \<or>
      (\<exists>p. get_path (nav_graph fleet_one) (current_vertex (Robot ''R1'' (0, 0) (Some 0))) 2 =
             Inr (Some p) \<and> p \<noteq> [])"
    by simp
  from assign_then_cancel [OF r this, of "[30, 1]" TrafficManager] r p
  show ?thesis by simp
qed

lemma path_length_two:
  assumes "p \<noteq> []" and "hd p \<noteq> last p"
  shows "1 < length p"
proof (cases p)
  case Nil
  with assms show ?thesis by simp
next
  case (Cons x xs)
  with assms have "xs \<noteq> []" by auto
  with Cons show ?thesis by (cases xs) auto
qed

text \<open>
  C9. For a registered robot in state CHARGING or WAITING and a destination other than
  its current vertex with a path from the one to the other, \<open>assign_task\<close> returns
  true and the robot is MOVING along the new path, its battery as it was (a charge in
  progress is dropped where it stands), and the occupancy tables are exactly as
  before: nothing the robot held is released.
\<close>

theorem assign_task_overrides_state:
  assumes "map_of (robots (fleet s)) i = Some r"
    and "state r = CHARGING \<or> state r = WAITING"
    and "current_vertex r \<noteq> Some d"
    and "get_path (nav_graph (fleet s)) (current_vertex r) d = Inr (Some p)"
    and "p \<noteq> []" and "Some (hd p) = current_vertex r" and "last p = d"
  shows "fst (sys_assign_task s i d) = Inr True \<and>
         map_of (robots (fleet (snd (sys_assign_task s i d)))) i =
           Some (r\<lparr>destination := Some d, path := p, next_vertex := Some (p ! 1),
                   state := MOVING\<rparr>) \<and>
         (\<forall>r'. map_of (robots (fleet (snd (sys_assign_task s i d)))) i = Some r' \<longrightarrow>
               state r' = MOVING \<and> battery r' = battery r) \<and>
         traffic (snd (sys_assign_task s i d)) = traffic s"
proof -
  from assms(3,6,7) have "hd p \<noteq> last p" by auto
  with assms(5) have len: "1 < length p" by (rule path_length_two)
  then have sd: "set_destination d p r =
      r\<lparr>destination := Some d, path := p, next_vertex := Some (p ! 1), state := MOVING\<rparr>"
    by (simp add: set_destination_def Let_def)
  have "assign_task (fleet s) i d =
      (Inr True,
       (fleet s)\<lparr>robots := AList.update i (set_destination d p r) (robots (fleet s)),
                 tasks := AList.update i \<lparr>task_destination = d\<rparr> (tasks (fleet s))\<rparr>)"
    using assms(1,3,4,5) by (simp add: assign_task_def)
  then show ?thesis
    by (simp add: sys_assign_task_def sd update_conv')
qed

theorem assign_task_overrides_state_witness:
  "fst (sys_assign_task charging_system ''R1'' 2) = Inr True \<and>
   map_of (robots (fleet (snd (sys_assign_task charging_system ''R1'' 2)))) ''R1'' =
     Some \<lparr>robot_id = ''R1'', position = (0, 0), current_vertex = Some 0,
           destination = Some 2, path = [0, 1, 2], next_vertex = Some 1, state = MOVING,
           speed = 0.05, battery = 60\<rparr> \<and>
   traffic (snd (sys_assign_task charging_system ''R1'' 2)) =
     \<lparr>lane_occupancy = [((0, 1), ''R1'')], vertex_occupancy = [(0, ''R1'')]\<rparr>"
proof -
  let ?r = "start_charging ((Robot ''R1'' (0, 0) (Some 0))\<lparr>battery := 60\<rparr>)"
  have r: "map_of (robots (fleet charging_system)) ''R1'' = Some ?r"
    by (simp add: charging_system_def add_robot_def FleetManager_def Robot_def
        start_charging_def)
  have st: "state ?r = CHARGING \<or> state ?r = WAITING"
    by (simp add: start_charging_def)
  have cv: "current_vertex ?r \<noteq> Some 2"
    by (simp add: start_charging_def Robot_def)
  have p: "get_path (nav_graph (fleet charging_system)) (current_vertex ?r) 2 =
      Inr (Some [0, 1, 2])"
    by (simp add: charging_system_def add_robot_def FleetManager_def Robot_def get_path_def
        line_graph_def line_shortest_path_def start_charging_def)
  have h: "Some (hd [0, 1, 2]) = current_vertex ?r"
    by (simp add: start_charging_def Robot_def)
  have tr: "traffic charging_system =
      \<lparr>lane_occupancy = [((0, 1), ''R1'')], vertex_occupancy = [(0, ''R1'')]\<rparr>"
    by (simp add: charging_system_def register_lane_usage_def TrafficManager_def)
  from assign_task_overrides_state [OF r st cv p _ h] tr
  show ?thesis by (simp add: start_charging_def Robot_def)
qed

section \<open>Lanes held across the dispatcher's ticks\<close>

lemmas eval_defs = update_robots_def tick_robot_def update_def move_toward_next_def
  lane_blocked_def truthy_def state_info_def Let_def vertex_positions_def get_chargers_def
  register_lane_usage_def start_charging_def set_destination_def assign_task_def get_path_def
  line_graph_def line_nodes_def line_shortest_path_def fleet_one_def add_robot_def
  FleetManager_def Robot_def TrafficManager_def

text \<open>
  C1, at a concrete run. The robot sent from vertex 0 to vertex 2 completes its task in
  five ticks of 20 seconds. \<open>update_robots\<close> registers a lane on every tick and never
  releases one, so the robot, at rest at vertex 2 with no next vertex, is still recorded
  on the three lanes (0, 1), (1, 1), (1, 2) and on the two vertices 0 and 1. A second
  robot spawned at vertex 0 and sent to vertex 1 finds lane (0, 1) taken: it is WAITING
  after its first tick, still WAITING at its spawn position after the second, and the
  tables are as before.
\<close>

theorem update_robots_keeps_lanes:
  "run_ticks [20, 20, 20, 20, 20] fleet_to_two TrafficManager =
     (None, fleet_done, traffic_done) \<and>
   robots fleet_done =
     [(''R1'', \<lparr>robot_id = ''R1'', position = (2, 0), current_vertex = Some 2,
                destination = Some 2, path = [], next_vertex = None,
                state = COMPLETED, speed = 0.05, battery = 39\<rparr>)] \<and>
   traffic_done =
     \<lparr>lane_occupancy = [((0, 1), ''R1''), ((1, 1), ''R1''), ((1, 2), ''R1'')],
      vertex_occupancy = [(0, ''R1''), (1, ''R1'')]\<rparr> \<and>
   robots (fst (snd (run_ticks [20] fleet_second traffic_done))) =
     [(''R1'', \<lparr>robot_id = ''R1'', position = (2, 0), current_vertex = Some 2,
                destination = Some 2, path = [], next_vertex = None,
                state = COMPLETED, speed = 0.05, battery = 38.8\<rparr>),
      (''R2'', \<lparr>robot_id = ''R2'', position = (0, 0), current_vertex = Some 0,
                destination = Some 1, path = [0, 1], next_vertex = Some 1,
                state = WAITING, speed = 0.05, battery = 99.8\<rparr>)] \<and>
   robots (fst (snd (run_ticks [20, 20] fleet_second traffic_done))) =
     [(''R1'', \<lparr>robot_id = ''R1'', position = (2, 0), current_vertex = Some 2,
                destination = Some 2, path = [], next_vertex = None,
                state = COMPLETED, speed = 0.05, battery = 38.6\<rparr>),
      (''R2'', \<lparr>robot_id = ''R2'', position = (0, 0), current_vertex = Some 0,
                destination = Some 1, path = [0, 1], next_vertex = Some 1,
                state = WAITING, speed = 0.05, battery = 99.6\<rparr>)] \<and>
   snd (snd (run_ticks [20, 20] fleet_second traffic_done)) = traffic_done"
  by (simp add: fleet_second_def fleet_done_def traffic_done_def fleet_to_two_def
      low_battery_fleet_def eval_defs)

section \<open>Charging on arrival\<close>

lemma move_toward_next_arrival:
  assumes "move_toward_next dt vp occ r = (Inr info, r1)"
  shows "destination r1 = destination r \<and>
         ((info_current_vertex info = None \<and> current_vertex r1 = current_vertex r \<and>
           (state r1 = state r \<or> state r1 = WAITING)) \<or>
          (info_current_vertex info = current_vertex r1 \<and> current_vertex r1 \<noteq> None \<and>
           (state r1 = state r \<or> state r1 = COMPLETED)))"
  using assms
  by (auto simp: move_toward_next_def Let_def state_info_def
      split: if_splits option.splits list.splits)

lemma update_arrival:
  assumes "update dt vp occ r = (Inr info, r1)"
  shows "destination r1 = destination r \<and>
         ((info_current_vertex info = None \<and> current_vertex r1 = current_vertex r) \<or>
          (info_current_vertex info = current_vertex r1 \<and> current_vertex r1 \<noteq> None \<and>
           (state r1 = MOVING \<or> state r1 = COMPLETED)))"
proof (cases "state r = MOVING")
  case False
  with assms show ?thesis
    by (cases "state r") (auto simp: update_def Let_def state_info_def split: if_splits)
next
  case True
  let ?r = "r\<lparr>battery := max 0 (battery r - 0.01 * dt)\<rparr>"
  show ?thesis
  proof (cases "truthy (next_vertex r)")
    case t: True
    with True assms have "move_toward_next dt vp occ ?r = (Inr info, r1)"
      by (simp add: update_def Let_def)
    from move_toward_next_arrival [OF this] True show ?thesis by auto
  next
    case f: False
    show ?thesis
    proof (cases "path r")
      case Nil
      with True f assms show ?thesis
        by (auto simp: update_def Let_def state_info_def)
    next
      case (Cons x rest)
      show ?thesis
      proof (cases rest)
        case Nil
        with Cons True f assms show ?thesis
          by (auto simp: update_def Let_def state_info_def)
      next
        case (Cons h t)
        with \<open>path r = x # rest\<close> True f assms
        have "move_toward_next dt vp occ (?r\<lparr>path := h # t, next_vertex := Some h\<rparr>) =
                (Inr info, r1)"
          by (simp add: update_def Let_def)
        from move_toward_next_arrival [OF this] True show ?thesis by auto
      qed
    qed
  qed
qed

lemma tick_robot_charging:
  assumes "tick_robot g dt i r tm = (Inr info, r', tm')"
    and "current_vertex r' = Some v" and "current_vertex r \<noteq> Some v"
    and "v \<in> set (get_chargers g)" and "battery r' < 50"
  shows "(destination r' = Some v \<longrightarrow> state r' = CHARGING) \<and>
         (destination r' \<noteq> Some v \<longrightarrow> state r' = MOVING \<or> state r' = COMPLETED)"
proof -
  obtain res r1 where u: "update dt (vertex_positions g) (lane_occupancy tm) r = (res, r1)"
    by (cases "update dt (vertex_positions g) (lane_occupancy tm) r") auto
  with assms(1) obtain info1 where res: "res = Inr info1"
    by (cases res) (auto simp: tick_robot_def Let_def)
  with assms(1) u have info1: "info1 = info"
    by (auto simp: tick_robot_def Let_def)
  let ?c = "\<lambda>w. Some w \<noteq> current_vertex r \<and> destination r1 = Some w \<and>
               w \<in> set (get_chargers g) \<and> battery r1 < 50"
  have r': "r' = (case info_current_vertex info of None \<Rightarrow> r1
                  | Some w \<Rightarrow> if ?c w then start_charging r1 else r1)"
    using assms(1) u res info1 by (auto simp: tick_robot_def Let_def)
  then have same: "current_vertex r' = current_vertex r1" "battery r' = battery r1"
    "destination r' = destination r1"
    by (auto simp: start_charging_def split: option.splits)
  from update_arrival [OF u [unfolded res info1]] assms(2,3) same
  have arr: "info_current_vertex info = Some v" "state r1 = MOVING \<or> state r1 = COMPLETED"
    by auto
  show ?thesis
    using r' arr same assms(3,4,5) by (auto simp: start_charging_def)
qed

lemma update_loop_steps:
  assumes "update_loop g dt ups rs tm = (Inr us, rs', tm')" and "(i, r) \<in> set rs"
  shows "\<exists>r' tm0 info tm1. (i, r') \<in> set rs' \<and> tick_robot g dt i r tm0 = (Inr info, r', tm1)"
  using assms
proof (induction rs arbitrary: ups tm rs' tm')
  case Nil
  then show ?case by simp
next
  case (Cons x rs)
  obtain j q where x: "x = (j, q)" by (cases x)
  obtain res r1 tm1 where t: "tick_robot g dt j q tm = (res, r1, tm1)"
    by (cases "tick_robot g dt j q tm") auto
  show ?case
  proof (cases res)
    case (Inl e)
    with x t Cons.prems(1) show ?thesis by simp
  next
    case (Inr info)
    obtain res2 rest1 tm2
      where u: "update_loop g dt (AList.update j info ups) rs tm1 = (res2, rest1, tm2)"
      by (cases "update_loop g dt (AList.update j info ups) rs tm1") auto
    with x t Inr Cons.prems(1) have eq: "res2 = Inr us" "rs' = (j, r1) # rest1"
      by auto
    show ?thesis
    proof (cases "(i, r) = (j, q)")
      case True
      with t Inr eq show ?thesis by auto
    next
      case False
      with Cons.prems(2) x have "(i, r) \<in> set rs" by auto
      from Cons.IH [OF u [unfolded eq(1)] this] eq(2) show ?thesis by auto
    qed
  qed
qed

text \<open>
  C2, amended. After a tick of the dispatcher that raised no exception, every robot of
  the registry whose current vertex changed in the tick to a charger vertex, with
  battery below 50, is CHARGING if that vertex is its destination; if it is not, the
  robot is in the state its own update left it in, MOVING or COMPLETED.
\<close>

theorem update_robots_charging:
  assumes "update_robots dt fm tm = (Inr us, fm', tm')" and "(i, r) \<in> set (robots fm)"
  shows "\<exists>r'. (i, r') \<in> set (robots fm') \<and>
           (\<forall>v. current_vertex r' = Some v \<and> current_vertex r \<noteq> Some v \<and>
                v \<in> set (get_chargers (nav_graph fm)) \<and> battery r' < 50 \<longrightarrow>
                (destination r' = Some v \<longrightarrow> state r' = CHARGING) \<and>
                (destination r' \<noteq> Some v \<longrightarrow> state r' = MOVING \<or> state r' = COMPLETED))"
proof -
  obtain res rs tm1 where u: "update_loop (nav_graph fm) dt [] (robots fm) tm = (res, rs, tm1)"
    by (cases "update_loop (nav_graph fm) dt [] (robots fm) tm") auto
  with assms(1) have eq: "res = Inr us" "robots fm' = rs"
    by (auto simp: update_robots_def)
  from update_loop_steps [OF u [unfolded eq(1)] assms(2)]
  obtain r' tm0 info tm2 where r': "(i, r') \<in> set rs"
    and t: "tick_robot (nav_graph fm) dt i r tm0 = (Inr info, r', tm2)"
    by blast
  from tick_robot_charging [OF t] r' eq(2) show ?thesis by blast
qed

lemma fleet_to_two_robots:
  "robots fleet_to_two =
     [(''R1'', \<lparr>robot_id = ''R1'', position = (0, 0), current_vertex = Some 0,
                destination = Some 2, path = [0, 1, 2], next_vertex = Some 1,
                state = MOVING, speed = 0.05, battery = 40\<rparr>)]"
  by (simp add: fleet_to_two_def low_battery_fleet_def eval_defs)

lemma fleet_to_one_robots:
  "robots fleet_to_one =
     [(''R1'', \<lparr>robot_id = ''R1'', position = (0, 0), current_vertex = Some 0,
                destination = Some 1, path = [0, 1], next_vertex = Some 1,
                state = MOVING, speed = 0.05, battery = 40\<rparr>)]"
  by (simp add: fleet_to_one_def low_battery_fleet_def eval_defs)

lemma fleet_to_one_tick:
  "update_robots 30 fleet_to_one TrafficManager =
     (Inr [(''R1'', \<lparr>info_state = MOVING, info_battery = None, info_position = Some (1, 0),
                     info_current_vertex = Some 1\<rparr>)],
      fleet_to_one\<lparr>robots :=
        [(''R1'', \<lparr>robot_id = ''R1'', position = (1, 0), current_vertex = Some 1,
                   destination = Some 1, path = [1], next_vertex = Some 1,
                   state = CHARGING, speed = 0.05, battery = 39.7\<rparr>)]\<rparr>,
      \<lparr>lane_occupancy = [((1, 1), ''R1'')], vertex_occupancy = [(1, ''R1'')]\<rparr>)"
  by (simp add: fleet_to_one_def low_battery_fleet_def eval_defs)

text \<open>
  C2 as stated fails: the robot sent to vertex 2 reaches the charger at vertex 1 with
  battery 39.7 and stays MOVING.
\<close>

theorem charger_passed_counterexample:
  "robots fleet_to_two =
     [(''R1'', \<lparr>robot_id = ''R1'', position = (0, 0), current_vertex = Some 0,
                destination = Some 2, path = [0, 1, 2], next_vertex = Some 1,
                state = MOVING, speed = 0.05, battery = 40\<rparr>)] \<and>
   get_chargers (nav_graph fleet_to_two) = [1] \<and>
   fst (update_robots 30 fleet_to_two TrafficManager) =
     Inr [(''R1'', \<lparr>info_state = MOVING, info_battery = None, info_position = Some (1, 0),
                     info_current_vertex = Some 1\<rparr>)] \<and>
   robots (fst (snd (update_robots 30 fleet_to_two TrafficManager))) =
     [(''R1'', \<lparr>robot_id = ''R1'', position = (1, 0), current_vertex = Some 1,
                destination = Some 2, path = [1, 2], next_vertex = Some 1,
                state = MOVING, speed = 0.05, battery = 39.7\<rparr>)]"
  by (simp add: fleet_to_two_def low_battery_fleet_def eval_defs)

text \<open>The robot sent to the charger itself is put on charge when it arrives.\<close>

theorem update_robots_charging_witness:
  "(''R1'', \<lparr>robot_id = ''R1'', position = (0, 0), current_vertex = Some 0,
             destination = Some 1, path = [0, 1], next_vertex = Some 1,
             state = MOVING, speed = 0.05, battery = 40\<rparr>) \<in> set (robots fleet_to_one) \<and>
   fst (update_robots 30 fleet_to_one TrafficManager) =
     Inr [(''R1'', \<lparr>info_state = MOVING, info_battery = None, info_position = Some (1, 0),
                     info_current_vertex = Some 1\<rparr>)] \<and>
   (\<exists>r'. (''R1'', r') \<in> set (robots (fst (snd (update_robots 30 fleet_to_one TrafficManager)))) \<and>
         current_vertex r' = Some 1 \<and> 1 \<in> set (get_chargers (nav_graph fleet_to_one)) \<and>
         battery r' < 50 \<and> destination r' = Some 1 \<and> state r' = CHARGING)"
proof -
  let ?r = "\<lparr>robot_id = ''R1'', position = (0, 0), current_vertex = Some 0,
             destination = Some 1, path = [0, 1], next_vertex = Some 1,
             state = MOVING, speed = 0.05, battery = 40\<rparr>"
  have mem: "(''R1'', ?r) \<in> set (robots fleet_to_one)"
    by (simp add: fleet_to_one_robots)
  have ch: "get_chargers (nav_graph fleet_to_one) = [1]"
    by (simp add: fleet_to_one_def low_battery_fleet_def eval_defs)
  from update_robots_charging [OF fleet_to_one_tick mem]
  obtain r' where r': "(''R1'', r') \<in> set (robots (fleet_to_one\<lparr>robots :=
        [(''R1'', \<lparr>robot_id = ''R1'', position = (1, 0), current_vertex = Some 1,
                   destination = Some 1, path = [1], next_vertex = Some 1,
                   state = CHARGING, speed = 0.05, battery = 39.7\<rparr>)]\<rparr>))"
    and c: "\<forall>v. current_vertex r' = Some v \<and> current_vertex ?r \<noteq> Some v \<and>
                v \<in> set (get_chargers (nav_graph fleet_to_one)) \<and> battery r' < 50 \<longrightarrow>
                (destination r' = Some v \<longrightarrow> state r' = CHARGING) \<and>
                (destination r' \<noteq> Some v \<longrightarrow> state r' = MOVING \<or> state r' = COMPLETED)"
    by blast
  from r' have f: "current_vertex r' = Some 1" "battery r' < 50" "destination r' = Some 1"
    by auto
  with c ch have "state r' = CHARGING" by simp
  with r' f ch mem show ?thesis
    by (simp add: fleet_to_one_tick)
qed

end
